theory Spec2Isabelle
  imports Complex_Main "HOL-Library.AList" "HOL-Library.Multiset"
begin

section \<open>Polymarket arbitrage scanner: the model\<close>

text \<open>
  The embedding follows \<^verbatim>\<open>src/polymarket/models.py\<close>, \<^verbatim>\<open>src/polymarket/api.py\<close> and
  \<^verbatim>\<open>src/polymarket/scanner.py\<close>.

  \<^item> A Python \<^verbatim>\<open>float\<close> is modelled as a \<open>real\<close>: sums, differences, products and
    comparisons are the exact ones. Rounding, infinities and NaN are outside the model.
  \<^item> The builtin \<^verbatim>\<open>float(s)\<close> on a string is a parameter \<open>flt\<close> of type
    \<open>string \<Rightarrow> real option\<close>, \<open>None\<close> standing for \<^verbatim>\<open>ValueError\<close>. The theorems hold for
    every such parser; concrete inputs are evaluated with \<open>decimal_float\<close> below.
  \<^item> \<^verbatim>\<open>MIN_PROFIT_THRESHOLD\<close> is read from the environment by \<^verbatim>\<open>config/scanner.py\<close>; it
    is the parameter \<open>thr\<close>.
  \<^item> A \<^verbatim>\<open>dict[str, str]\<close> (a price level, an outcome token) is a map
    \<open>string \<rightharpoonup> string\<close>; the dictionary of order books built by
    \<^verbatim>\<open>fetch_orderbooks_batch\<close> is an association list in insertion order.
  \<^item> Every exception is a value: a function that can raise returns \<open>error + 'a\<close>.
  \<^item> Logging and the free-text \<^verbatim>\<open>details\<close> string of an opportunity (formatted
    floats) are not modelled; they influence neither control flow nor the other fields.
\<close>

subsection \<open>Errors\<close>

datatype error =
  KeyError | ValueError | TypeError
  | TimeoutException | HTTPStatusError | HTTPError | JSONDecodeError

definition rbind :: "error + 'a \<Rightarrow> ('a \<Rightarrow> error + 'b) \<Rightarrow> error + 'b" where
  "rbind m f = (case m of Inl e \<Rightarrow> Inl e | Inr x \<Rightarrow> f x)"

subsection \<open>models.py: OrderBook\<close>

type_synonym float_parser = "string \<Rightarrow> real option"

type_synonym level = "string \<rightharpoonup> string"

record orderbook =
  bids :: "level list"
  asks :: "level list"
  token_id :: string

text \<open>\<^verbatim>\<open>float(d[k])\<close>: \<^verbatim>\<open>KeyError\<close> when the key is missing, \<^verbatim>\<open>ValueError\<close> when the
  string does not parse.\<close>

definition float_item :: "float_parser \<Rightarrow> level \<Rightarrow> string \<Rightarrow> error + real" where
  "float_item flt d k =
     (case d k of
        None \<Rightarrow> Inl KeyError
      | Some s \<Rightarrow> (case flt s of None \<Rightarrow> Inl ValueError | Some x \<Rightarrow> Inr x))"

text \<open>The sort key \<^verbatim>\<open>float(b.get("price", "0"))\<close>.\<close>

definition price_key :: "float_parser \<Rightarrow> level \<Rightarrow> error + real" where
  "price_key flt b =
     (case flt (case b ''price'' of None \<Rightarrow> ''0'' | Some s \<Rightarrow> s) of
        None \<Rightarrow> Inl ValueError
      | Some x \<Rightarrow> Inr x)"

text \<open>\<^verbatim>\<open>sorted(xs, key=..., reverse=...)\<close> first computes the key of every element, in
  order, and raises at the first key that fails; then it sorts stably. With
  \<^verbatim>\<open>reverse=True\<close> elements with equal keys still keep their input order.\<close>

fun keyed :: "float_parser \<Rightarrow> level list \<Rightarrow> error + (real \<times> level) list" where
  "keyed flt [] = Inr []"
| "keyed flt (b # bs) =
     rbind (price_key flt b) (\<lambda>k.
     rbind (keyed flt bs) (\<lambda>ks. Inr ((k, b) # ks)))"

definition py_sorted :: "('a \<Rightarrow> 'k::linorder) \<Rightarrow> bool \<Rightarrow> 'a list \<Rightarrow> 'a list" where
  "py_sorted key reverse xs =
     (if reverse then rev (sort_key key (rev xs)) else sort_key key xs)"

definition sorted_by_price :: "float_parser \<Rightarrow> bool \<Rightarrow> level list \<Rightarrow> error + level list" where
  "sorted_by_price flt reverse xs =
     rbind (keyed flt xs) (\<lambda>ks. Inr (map snd (py_sorted fst reverse ks)))"

text \<open>The dataclass constructor followed by \<^verbatim>\<open>__post_init__\<close>.\<close>

definition post_init ::
  "float_parser \<Rightarrow> level list \<Rightarrow> level list \<Rightarrow> string \<Rightarrow> error + orderbook" where
  "post_init flt bs as tid =
     rbind (sorted_by_price flt True bs) (\<lambda>sb.
     rbind (sorted_by_price flt False as) (\<lambda>sa.
     Inr \<lparr>bids = sb, asks = sa, token_id = tid\<rparr>))"

definition best_bid :: "float_parser \<Rightarrow> orderbook \<Rightarrow> error + real option" where
  "best_bid flt book =
     (case bids book of
        [] \<Rightarrow> Inr None
      | b # _ \<Rightarrow> rbind (float_item flt b ''price'') (\<lambda>x. Inr (Some x)))"

definition best_ask :: "float_parser \<Rightarrow> orderbook \<Rightarrow> error + real option" where
  "best_ask flt book =
     (case asks book of
        [] \<Rightarrow> Inr None
      | a # _ \<Rightarrow> rbind (float_item flt a ''price'') (\<lambda>x. Inr (Some x)))"

definition best_bid_size :: "float_parser \<Rightarrow> orderbook \<Rightarrow> error + real option" where
  "best_bid_size flt book =
     (case bids book of
        [] \<Rightarrow> Inr None
      | b # _ \<Rightarrow> rbind (float_item flt b ''size'') (\<lambda>x. Inr (Some x)))"

definition best_ask_size :: "float_parser \<Rightarrow> orderbook \<Rightarrow> error + real option" where
  "best_ask_size flt book =
     (case asks book of
        [] \<Rightarrow> Inr None
      | a # _ \<Rightarrow> rbind (float_item flt a ''size'') (\<lambda>x. Inr (Some x)))"

text \<open>The decoded response body, as far as \<^verbatim>\<open>from_api_response\<close> reads it: the value
  under \<^verbatim>\<open>"bids"\<close> and under \<^verbatim>\<open>"asks"\<close>, \<open>None\<close> when the key is missing or its value
  is \<^verbatim>\<open>null\<close> (\<^verbatim>\<open>data.get("bids", []) or []\<close> maps both to the empty list).\<close>

record book_data =
  data_bids :: "level list option"
  data_asks :: "level list option"

definition from_api_response :: "float_parser \<Rightarrow> book_data \<Rightarrow> string \<Rightarrow> error + orderbook" where
  "from_api_response flt data tid =
     post_init flt
       (case data_bids data of None \<Rightarrow> [] | Some bs \<Rightarrow> bs)
       (case data_asks data of None \<Rightarrow> [] | Some as \<Rightarrow> as)
       tid"

subsection \<open>models.py: Market and Opportunity\<close>

type_synonym token = "string \<rightharpoonup> string"

record market =
  condition_id :: string
  question :: string
  slug :: string
  tokens :: "token list"
  active :: bool
  volume :: real
  event_slug :: string

record opportunity =
  market_question :: string
  arb_type :: string
  profit_pct :: real
  max_size :: real
  max_profit_usd :: real
  yes_price :: real
  no_price :: real
  opp_event_slug :: string

subsection \<open>scanner.py: the binary check\<close>

text \<open>\<^verbatim>\<open>min(a, b)\<close> on two accessor results; comparing with \<^verbatim>\<open>None\<close> is a
  \<^verbatim>\<open>TypeError\<close>.\<close>

definition min2 :: "real option \<Rightarrow> real option \<Rightarrow> error + real" where
  "min2 a b =
     (case (a, b) of (Some x, Some y) \<Rightarrow> Inr (min x y) | _ \<Rightarrow> Inl TypeError)"

text \<open>The block under \<^verbatim>\<open># --- BUY arbitrage\<close> of \<^verbatim>\<open>check_binary_arbitrage\<close>: what it
  appends to \<^verbatim>\<open>opportunities\<close>.\<close>

definition binary_buy ::
  "float_parser \<Rightarrow> real \<Rightarrow> market \<Rightarrow> orderbook \<Rightarrow> orderbook \<Rightarrow> error + opportunity list" where
  "binary_buy flt thr m yes_book no_book =
     rbind (best_ask flt yes_book) (\<lambda>yes_ask.
     rbind (best_ask flt no_book) (\<lambda>no_ask.
       (case (yes_ask, no_ask) of
          (Some ya, Some na) \<Rightarrow>
            (let combined_ask = ya + na in
             if combined_ask < 1 then
               (let profit = 1 - combined_ask in
                if profit \<ge> thr then
                  rbind (best_ask_size flt yes_book) (\<lambda>ys.
                  rbind (best_ask_size flt no_book) (\<lambda>ns.
                  rbind (min2 ys ns) (\<lambda>size.
                    Inr [\<lparr>market_question = question m, arb_type = ''BUY'',
                          profit_pct = profit, max_size = size,
                          max_profit_usd = profit * size,
                          yes_price = ya, no_price = na,
                          opp_event_slug = event_slug m\<rparr>])))
                else Inr [])
             else Inr [])
        | _ \<Rightarrow> Inr [])))"

text \<open>The block under \<^verbatim>\<open># --- SELL arbitrage\<close>.\<close>

definition binary_sell ::
  "float_parser \<Rightarrow> real \<Rightarrow> market \<Rightarrow> orderbook \<Rightarrow> orderbook \<Rightarrow> error + opportunity list" where
  "binary_sell flt thr m yes_book no_book =
     rbind (best_bid flt yes_book) (\<lambda>yes_bid.
     rbind (best_bid flt no_book) (\<lambda>no_bid.
       (case (yes_bid, no_bid) of
          (Some yb, Some nb) \<Rightarrow>
            (let combined_bid = yb + nb in
             if combined_bid > 1 then
               (let profit = combined_bid - 1 in
                if profit \<ge> thr then
                  rbind (best_bid_size flt yes_book) (\<lambda>ys.
                  rbind (best_bid_size flt no_book) (\<lambda>ns.
                  rbind (min2 ys ns) (\<lambda>size.
                    Inr [\<lparr>market_question = question m, arb_type = ''SELL'',
                          profit_pct = profit, max_size = size,
                          max_profit_usd = profit * size,
                          yes_price = yb, no_price = nb,
                          opp_event_slug = event_slug m\<rparr>])))
                else Inr [])
             else Inr [])
        | _ \<Rightarrow> Inr [])))"

definition check_binary_arbitrage ::
  "float_parser \<Rightarrow> real \<Rightarrow> market \<Rightarrow> orderbook \<Rightarrow> orderbook \<Rightarrow> error + opportunity list" where
  "check_binary_arbitrage flt thr m yes_book no_book =
     rbind (binary_buy flt thr m yes_book no_book) (\<lambda>buy.
     rbind (binary_sell flt thr m yes_book no_book) (\<lambda>sell.
     Inr (buy @ sell)))"

subsection \<open>scanner.py: the multi-outcome check\<close>

type_synonym accessor = "orderbook \<Rightarrow> error + real option"

text \<open>\<^verbatim>\<open>all(acc(book) is not None for _, book in books)\<close>: the generator is consumed
  up to the first book without a value; an accessor that raises stops it.\<close>

fun all_valid :: "accessor \<Rightarrow> (string \<times> orderbook) list \<Rightarrow> error + bool" where
  "all_valid acc [] = Inr True"
| "all_valid acc ((name, book) # rest) =
     rbind (acc book) (\<lambda>v.
       case v of None \<Rightarrow> Inr False | Some _ \<Rightarrow> all_valid acc rest)"

text \<open>\<^verbatim>\<open>sum(acc(book) for _, book in books)\<close>: a left fold from \<open>0\<close>; adding \<^verbatim>\<open>None\<close>
  is a \<^verbatim>\<open>TypeError\<close>.\<close>

fun sum_from :: "accessor \<Rightarrow> real \<Rightarrow> (string \<times> orderbook) list \<Rightarrow> error + real" where
  "sum_from acc s [] = Inr s"
| "sum_from acc s ((name, book) # rest) =
     rbind (acc book) (\<lambda>v.
       case v of None \<Rightarrow> Inl TypeError | Some x \<Rightarrow> sum_from acc (s + x) rest)"

text \<open>\<^verbatim>\<open>min(acc(book) for _, book in books)\<close>: the running minimum; on an empty
  sequence \<^verbatim>\<open>min\<close> raises \<^verbatim>\<open>ValueError\<close>. A \<^verbatim>\<open>None\<close> among the values is a
  \<^verbatim>\<open>TypeError\<close> (it cannot occur where the check calls \<^verbatim>\<open>min\<close>: every ladder read
  there is non-empty).\<close>

fun min_from :: "accessor \<Rightarrow> real \<Rightarrow> (string \<times> orderbook) list \<Rightarrow> error + real" where
  "min_from acc m [] = Inr m"
| "min_from acc m ((name, book) # rest) =
     rbind (acc book) (\<lambda>v.
       case v of None \<Rightarrow> Inl TypeError | Some x \<Rightarrow> min_from acc (min m x) rest)"

definition min_of :: "accessor \<Rightarrow> (string \<times> orderbook) list \<Rightarrow> error + real" where
  "min_of acc books =
     (case books of
        [] \<Rightarrow> Inl ValueError
      | (name, book) # rest \<Rightarrow>
          rbind (acc book) (\<lambda>v.
            case v of None \<Rightarrow> Inl TypeError | Some x \<Rightarrow> min_from acc x rest))"

text \<open>The block under \<^verbatim>\<open># --- BUY arbitrage\<close> of \<^verbatim>\<open>check_multi_outcome_arbitrage\<close>.\<close>

definition multi_buy ::
  "float_parser \<Rightarrow> real \<Rightarrow> string \<Rightarrow> (string \<times> orderbook) list \<Rightarrow> string
     \<Rightarrow> error + opportunity list" where
  "multi_buy flt thr q books ev =
     rbind (all_valid (best_ask flt) books) (\<lambda>all_asks_valid.
       if all_asks_valid then
         rbind (sum_from (best_ask flt) 0 books) (\<lambda>sum_of_asks.
           if sum_of_asks < 1 then
             (let profit = 1 - sum_of_asks in
              if profit \<ge> thr then
                rbind (min_of (best_ask_size flt) books) (\<lambda>size.
                  Inr [\<lparr>market_question = q, arb_type = ''MULTI'',
                        profit_pct = profit, max_size = size,
                        max_profit_usd = profit * size,
                        yes_price = sum_of_asks, no_price = 0,
                        opp_event_slug = ev\<rparr>])
              else Inr [])
           else Inr [])
       else Inr [])"

text \<open>The block under \<^verbatim>\<open># --- SELL arbitrage\<close>.\<close>

definition multi_sell ::
  "float_parser \<Rightarrow> real \<Rightarrow> string \<Rightarrow> (string \<times> orderbook) list \<Rightarrow> string
     \<Rightarrow> error + opportunity list" where
  "multi_sell flt thr q books ev =
     rbind (all_valid (best_bid flt) books) (\<lambda>all_bids_valid.
       if all_bids_valid then
         rbind (sum_from (best_bid flt) 0 books) (\<lambda>sum_of_bids.
           if sum_of_bids > 1 then
             (let profit = sum_of_bids - 1 in
              if profit \<ge> thr then
                rbind (min_of (best_bid_size flt) books) (\<lambda>size.
                  Inr [\<lparr>market_question = q, arb_type = ''MULTI'',
                        profit_pct = profit, max_size = size,
                        max_profit_usd = profit * size,
                        yes_price = 0, no_price = sum_of_bids,
                        opp_event_slug = ev\<rparr>])
              else Inr [])
           else Inr [])
       else Inr [])"

definition check_multi_outcome_arbitrage ::
  "float_parser \<Rightarrow> real \<Rightarrow> string \<Rightarrow> (string \<times> orderbook) list \<Rightarrow> string
     \<Rightarrow> error + opportunity list" where
  "check_multi_outcome_arbitrage flt thr q books ev =
     rbind (multi_buy flt thr q books ev) (\<lambda>buy.
     rbind (multi_sell flt thr q books ev) (\<lambda>sell.
     Inr (buy @ sell)))"

subsection \<open>api.py: fetching order books\<close>

text \<open>The transport is outside the model. A \<open>client\<close> gives, for the \<open>i\<close>-th request of
  a batch and its token, what
  \<^verbatim>\<open>client.get(...); response.raise_for_status(); response.json()\<close> yields: the decoded
  body, or the exception raised.\<close>

type_synonym client = "nat \<Rightarrow> string \<Rightarrow> error + book_data"

text \<open>The \<^verbatim>\<open>except\<close> clauses of \<^verbatim>\<open>fetch_orderbook\<close>, in the source's order.\<close>

definition fetch_orderbook ::
  "float_parser \<Rightarrow> error + book_data \<Rightarrow> string \<Rightarrow> error + orderbook option" where
  "fetch_orderbook flt response tid =
     (case rbind response (\<lambda>data. from_api_response flt data tid) of
        Inr book \<Rightarrow> Inr (Some book)
      | Inl e \<Rightarrow>
          if e = TimeoutException then Inr None
          else if e = HTTPStatusError then Inr None
          else if e = HTTPError then Inr None
          else if e \<in> {JSONDecodeError, KeyError, ValueError, TypeError} then Inr None
          else Inl e)"

text \<open>\<^verbatim>\<open>asyncio.gather\<close> returns the results in the order of \<^verbatim>\<open>token_ids\<close>, whatever
  the order of completion; an exception of one task is raised to the caller.\<close>

fun gather ::
  "float_parser \<Rightarrow> client \<Rightarrow> nat \<Rightarrow> string list \<Rightarrow> error + (string \<times> orderbook option) list" where
  "gather flt cl i [] = Inr []"
| "gather flt cl i (tid # tids) =
     rbind (fetch_orderbook flt (cl i tid) tid) (\<lambda>ob.
     rbind (gather flt cl (Suc i) tids) (\<lambda>rest. Inr ((tid, ob) # rest)))"

text \<open>The dict comprehension
  \<^verbatim>\<open>{token_id: orderbook for token_id, orderbook in results if orderbook is not None}\<close>:
  the pairs that pass the filter, in order, are stored one after the other; storing
  under a key that is already there replaces the value and keeps the key's position.\<close>

fun successes :: "(string \<times> orderbook option) list \<Rightarrow> (string \<times> orderbook) list" where
  "successes [] = []"
| "successes ((tid, ob) # rest) =
     (case ob of None \<Rightarrow> successes rest | Some book \<Rightarrow> (tid, book) # successes rest)"

fun py_dict :: "(string \<times> 'v) list \<Rightarrow> (string \<times> 'v) list \<Rightarrow> (string \<times> 'v) list" where
  "py_dict [] d = d"
| "py_dict ((k, v) # rest) d = py_dict rest (AList.update k v d)"

definition fetch_orderbooks_batch ::
  "float_parser \<Rightarrow> client \<Rightarrow> string list \<Rightarrow> error + (string \<times> orderbook) list" where
  "fetch_orderbooks_batch flt cl token_ids =
     rbind (gather flt cl 0 token_ids) (\<lambda>results. Inr (py_dict (successes results) []))"

subsection \<open>scanner.py: scan\_markets\<close>

definition item :: "token \<Rightarrow> string \<Rightarrow> error + string" where
  "item d k = (case d k of None \<Rightarrow> Inl KeyError | Some v \<Rightarrow> Inr v)"

fun items :: "token list \<Rightarrow> string \<Rightarrow> error + string list" where
  "items [] k = Inr []"
| "items (t # ts) k =
     rbind (item t k) (\<lambda>v. rbind (items ts k) (\<lambda>vs. Inr (v # vs)))"

fun all_token_ids :: "market list \<Rightarrow> error + string list" where
  "all_token_ids [] = Inr []"
| "all_token_ids (m # ms) =
     rbind (items (tokens m) ''token_id'') (\<lambda>ids.
     rbind (all_token_ids ms) (\<lambda>rest. Inr (ids @ rest)))"

text \<open>The inner loop of the multi-outcome branch: \<open>None\<close> when a book is missing
  (\<^verbatim>\<open>missing_book = True; break\<close>).\<close>

fun collect_books ::
  "(string \<times> orderbook) list \<Rightarrow> token list \<Rightarrow> error + (string \<times> orderbook) list option" where
  "collect_books orderbooks [] = Inr (Some [])"
| "collect_books orderbooks (t # ts) =
     rbind (item t ''token_id'') (\<lambda>tid.
     rbind (item t ''outcome'') (\<lambda>outcome_name.
       case map_of orderbooks tid of
         None \<Rightarrow> Inr None
       | Some book \<Rightarrow>
           rbind (collect_books orderbooks ts) (\<lambda>r.
             Inr (map_option (\<lambda>books. (outcome_name, book) # books) r))))"

text \<open>One iteration of \<^verbatim>\<open>for market in markets\<close>: the opportunities it adds.\<close>

definition scan_market ::
  "float_parser \<Rightarrow> real \<Rightarrow> (string \<times> orderbook) list \<Rightarrow> market \<Rightarrow> error + opportunity list" where
  "scan_market flt thr orderbooks m =
     (let num_outcomes = length (tokens m) in
      if num_outcomes = 2 then
        rbind (item (tokens m ! 0) ''token_id'') (\<lambda>yes_token_id.
        rbind (item (tokens m ! 1) ''token_id'') (\<lambda>no_token_id.
          case (map_of orderbooks yes_token_id, map_of orderbooks no_token_id) of
            (Some yes_book, Some no_book) \<Rightarrow> check_binary_arbitrage flt thr m yes_book no_book
          | _ \<Rightarrow> Inr []))
      else if num_outcomes \<ge> 3 then
        rbind (collect_books orderbooks (tokens m)) (\<lambda>r.
          case r of
            None \<Rightarrow> Inr []
          | Some books \<Rightarrow> check_multi_outcome_arbitrage flt thr (question m) books (event_slug m))
      else Inr [])"

fun scan_loop ::
  "float_parser \<Rightarrow> real \<Rightarrow> (string \<times> orderbook) list \<Rightarrow> market list \<Rightarrow> error + opportunity list" where
  "scan_loop flt thr orderbooks [] = Inr []"
| "scan_loop flt thr orderbooks (m # ms) =
     rbind (scan_market flt thr orderbooks m) (\<lambda>found.
     rbind (scan_loop flt thr orderbooks ms) (\<lambda>rest. Inr (found @ rest)))"

definition scan_markets ::
  "float_parser \<Rightarrow> real \<Rightarrow> client \<Rightarrow> market list \<Rightarrow> error + opportunity list" where
  "scan_markets flt thr cl markets =
     rbind (all_token_ids markets) (\<lambda>ids.
     rbind (fetch_orderbooks_batch flt cl ids) (\<lambda>orderbooks.
     rbind (scan_loop flt thr orderbooks markets) (\<lambda>opportunities.
     Inr (py_sorted profit_pct True opportunities))))"

subsection \<open>A concrete parser for plain decimal literals\<close>

text \<open>\<open>decimal_float\<close> reads an optional sign, digits, and optionally a point and more
  digits, as \<^verbatim>\<open>float\<close> does on such strings up to rounding; it rejects everything else.
  It is used only to evaluate the model on concrete books.\<close>

definition digit :: "char \<Rightarrow> nat option" where
  "digit c = map_of (zip ''0123456789'' [0, 1, 2, 3, 4, 5, 6, 7, 8, 9]) c"

fun digits :: "nat \<Rightarrow> string \<Rightarrow> nat option" where
  "digits n [] = Some n"
| "digits n (c # cs) =
     (case digit c of None \<Rightarrow> None | Some d \<Rightarrow> digits (10 * n + d) cs)"

definition unsigned_decimal :: "string \<Rightarrow> real option" where
  "unsigned_decimal s =
     (let ip = takeWhile (\<lambda>c. c \<noteq> CHR ''.'') s;
          fp = drop 1 (dropWhile (\<lambda>c. c \<noteq> CHR ''.'') s)
      in if ip = [] \<or> (fp = [] \<and> ip \<noteq> s) then None
         else (case digits 0 (ip @ fp) of
                 None \<Rightarrow> None
               | Some n \<Rightarrow> Some (real n / 10 ^ length fp)))"

definition decimal_float :: float_parser where
  "decimal_float s =
     (case s of
        [] \<Rightarrow> None
      | c # cs \<Rightarrow>
          if c = CHR ''-'' then map_option uminus (unsigned_decimal cs)
          else if c = CHR ''+'' then unsigned_decimal cs
          else unsigned_decimal s)"

definition lvl :: "string \<Rightarrow> string \<Rightarrow> level" where
  "lvl p s = [''price'' \<mapsto> p, ''size'' \<mapsto> s]"

definition tok :: "string \<Rightarrow> string \<Rightarrow> token" where
  "tok tid outcome = [''token_id'' \<mapsto> tid, ''outcome'' \<mapsto> outcome]"

subsection \<open>Well-formed ladders\<close>

text \<open>The data model of the specification takes every ladder entry to be a pair of a
  price and a size. In the code an entry is a dictionary of strings; it is well formed
  when both keys are present and both strings parse.\<close>

definition wf_level :: "float_parser \<Rightarrow> level \<Rightarrow> bool" where
  "wf_level flt e =
     ((case e ''price'' of None \<Rightarrow> False | Some s \<Rightarrow> flt s \<noteq> None) \<and>
      (case e ''size'' of None \<Rightarrow> False | Some s \<Rightarrow> flt s \<noteq> None))"

definition wf_book :: "float_parser \<Rightarrow> orderbook \<Rightarrow> bool" where
  "wf_book flt book = (list_all (wf_level flt) (bids book) \<and> list_all (wf_level flt) (asks book))"

subsection \<open>Concrete inputs\<close>

text \<open>The market built by \<^verbatim>\<open>_make_market\<close> in \<^verbatim>\<open>tests/test_scanner.py\<close>, and a book
  given by its two ladders as they are (already sorted).\<close>

definition test_market :: market where
  "test_market =
     \<lparr>condition_id = ''0xtest'', question = ''Test market'', slug = ''test-market'',
      tokens = [tok ''yes_token'' ''Yes'', tok ''no_token'' ''No''],
      active = True, volume = 100000, event_slug = ''test-event''\<rparr>"

definition mk_book :: "level list \<Rightarrow> level list \<Rightarrow> string \<Rightarrow> orderbook" where
  "mk_book bs as tid = \<lparr>bids = bs, asks = as, token_id = tid\<rparr>"


definition flaky_client :: client where
  "flaky_client i tid =
     (if i = 1 then Inl TimeoutException
      else Inr \<lparr>data_bids = Some [lvl (if i = 0 then ''0.5'' else ''0.6'') ''10''],
                data_asks = Some []\<rparr>)"

text \<open>A scan over three binary markets: every book has no bids and one ask of size
  \<open>100\<close>; the asks are \<open>0.45 + 0.50\<close> in the first and the third market and
  \<open>0.40 + 0.50\<close> in the second.\<close>

definition scan_client :: client where
  "scan_client i tid =
     Inr \<lparr>data_bids = Some [],
          data_asks = Some [lvl (if tid = ''y2'' then ''0.40''
                                 else if tid = ''y1'' \<or> tid = ''y3'' then ''0.45''
                                 else ''0.50'') ''100'']\<rparr>"

definition binary_market :: "string \<Rightarrow> string \<Rightarrow> string \<Rightarrow> market" where
  "binary_market q yes no =
     \<lparr>condition_id = ''0xtest'', question = q, slug = ''test-market'',
      tokens = [tok yes ''Yes'', tok no ''No''],
      active = True, volume = 100000, event_slug = ''test-event''\<rparr>"

definition scan_input :: "market list" where
  "scan_input =
     [binary_market ''first'' ''y1'' ''n1'', binary_market ''second'' ''y2'' ''n2'',
      binary_market ''third'' ''y3'' ''n3'']"

definition buy_opp :: "string \<Rightarrow> real \<Rightarrow> real \<Rightarrow> opportunity" where
  "buy_opp q ya na =
     \<lparr>market_question = q, arb_type = ''BUY'', profit_pct = 1 - (ya + na), max_size = 100,
      max_profit_usd = (1 - (ya + na)) * 100, yes_price = ya, no_price = na,
      opp_event_slug = ''test-event''\<rparr>"

lemmas eval_simps =
  decimal_float_def unsigned_decimal_def digit_def lvl_def tok_def mk_book_def test_market_def
  float_item_def best_ask_def best_bid_def best_ask_size_def best_bid_size_def
  wf_book_def wf_level_def

section \<open>Properties\<close>

subsection \<open>Results and accessors\<close>

lemma rbind_Inr [simp]: "rbind (Inr x) f = f x"
  by (simp add: rbind_def)

lemma rbind_Inl [simp]: "rbind (Inl e) f = Inl e"
  by (simp add: rbind_def)

lemma rbind_eq_Inr: "rbind m f = Inr y \<longleftrightarrow> (\<exists>x. m = Inr x \<and> f x = Inr y)"
  by (cases m) simp_all




lemma float_item_wf:
  "wf_level flt e \<Longrightarrow> \<exists>p s. float_item flt e ''price'' = Inr p \<and> float_item flt e ''size'' = Inr s"
  by (auto simp: wf_level_def float_item_def split: option.splits)

lemma wf_book_asks:
  assumes "wf_book flt book"
  shows "\<exists>p s. best_ask flt book = Inr p \<and> best_ask_size flt book = Inr s \<and>
           (p = None \<longleftrightarrow> asks book = []) \<and> (s = None \<longleftrightarrow> asks book = [])"
proof (cases "asks book")
  case Nil
  then show ?thesis by (simp add: best_ask_def best_ask_size_def)
next
  case (Cons e rest)
  with assms have "wf_level flt e" by (simp add: wf_book_def)
  from float_item_wf [OF this] Cons show ?thesis
    by (auto simp: best_ask_def best_ask_size_def)
qed

lemma wf_book_bids:
  assumes "wf_book flt book"
  shows "\<exists>p s. best_bid flt book = Inr p \<and> best_bid_size flt book = Inr s \<and>
           (p = None \<longleftrightarrow> bids book = []) \<and> (s = None \<longleftrightarrow> bids book = [])"
proof (cases "bids book")
  case Nil
  then show ?thesis by (simp add: best_bid_def best_bid_size_def)
next
  case (Cons e rest)
  with assms have "wf_level flt e" by (simp add: wf_book_def)
  from float_item_wf [OF this] Cons show ?thesis
    by (auto simp: best_bid_def best_bid_size_def)
qed










subsection \<open>The binary check\<close>








subsection \<open>The multi-outcome check\<close>


























subsection \<open>The threshold\<close>






subsection \<open>The order book\<close>

lemma first_item:
  "rbind (float_item flt e k) (\<lambda>x. Inr (Some x)) =
     (case e k of
        None \<Rightarrow> Inl KeyError
      | Some s \<Rightarrow> (case flt s of None \<Rightarrow> Inl ValueError | Some x \<Rightarrow> Inr (Some x)))"
  by (simp add: float_item_def split: option.splits)

text \<open>
  Claim C8 (best-price accessors), amended. Each of \<^verbatim>\<open>best_bid\<close>, \<^verbatim>\<open>best_ask\<close>,
  \<^verbatim>\<open>best_bid_size\<close> and \<^verbatim>\<open>best_ask_size\<close> returns the absent value (\<^verbatim>\<open>None\<close>, not
  zero) exactly when its ladder is empty. On a non-empty ladder it reads the price,
  respectively the size, of the first entry: it returns the number when the key is
  present and its string parses, raises \<^verbatim>\<open>KeyError\<close> when the key is missing and
  \<^verbatim>\<open>ValueError\<close> when the string does not parse. On a well-formed book no accessor
  raises.
\<close>

theorem accessors_absent_iff_empty:
  "(best_bid flt book = Inr None \<longleftrightarrow> bids book = []) \<and>
   (best_bid_size flt book = Inr None \<longleftrightarrow> bids book = []) \<and>
   (best_ask flt book = Inr None \<longleftrightarrow> asks book = []) \<and>
   (best_ask_size flt book = Inr None \<longleftrightarrow> asks book = []) \<and>
   (\<forall>e rest. bids book = e # rest \<longrightarrow>
      best_bid flt book =
        (case e ''price'' of
           None \<Rightarrow> Inl KeyError
         | Some s \<Rightarrow> (case flt s of None \<Rightarrow> Inl ValueError | Some x \<Rightarrow> Inr (Some x))) \<and>
      best_bid_size flt book =
        (case e ''size'' of
           None \<Rightarrow> Inl KeyError
         | Some s \<Rightarrow> (case flt s of None \<Rightarrow> Inl ValueError | Some x \<Rightarrow> Inr (Some x)))) \<and>
   (\<forall>e rest. asks book = e # rest \<longrightarrow>
      best_ask flt book =
        (case e ''price'' of
           None \<Rightarrow> Inl KeyError
         | Some s \<Rightarrow> (case flt s of None \<Rightarrow> Inl ValueError | Some x \<Rightarrow> Inr (Some x))) \<and>
      best_ask_size flt book =
        (case e ''size'' of
           None \<Rightarrow> Inl KeyError
         | Some s \<Rightarrow> (case flt s of None \<Rightarrow> Inl ValueError | Some x \<Rightarrow> Inr (Some x)))) \<and>
   (wf_book flt book \<longrightarrow>
      (\<exists>p ps q qs. best_bid flt book = Inr p \<and> best_bid_size flt book = Inr ps \<and>
         best_ask flt book = Inr q \<and> best_ask_size flt book = Inr qs))"
proof (intro conjI allI impI)
  show "best_bid flt book = Inr None \<longleftrightarrow> bids book = []"
    by (cases "bids book") (auto simp: best_bid_def first_item split: option.splits)
  show "best_bid_size flt book = Inr None \<longleftrightarrow> bids book = []"
    by (cases "bids book") (auto simp: best_bid_size_def first_item split: option.splits)
  show "best_ask flt book = Inr None \<longleftrightarrow> asks book = []"
    by (cases "asks book") (auto simp: best_ask_def first_item split: option.splits)
  show "best_ask_size flt book = Inr None \<longleftrightarrow> asks book = []"
    by (cases "asks book") (auto simp: best_ask_size_def first_item split: option.splits)
next
  fix e rest assume "bids book = e # rest"
  then show "best_bid flt book =
        (case e ''price'' of
           None \<Rightarrow> Inl KeyError
         | Some s \<Rightarrow> (case flt s of None \<Rightarrow> Inl ValueError | Some x \<Rightarrow> Inr (Some x)))"
    and "best_bid_size flt book =
        (case e ''size'' of
           None \<Rightarrow> Inl KeyError
         | Some s \<Rightarrow> (case flt s of None \<Rightarrow> Inl ValueError | Some x \<Rightarrow> Inr (Some x)))"
    by (simp_all add: best_bid_def best_bid_size_def first_item)
next
  fix e rest assume "asks book = e # rest"
  then show "best_ask flt book =
        (case e ''price'' of
           None \<Rightarrow> Inl KeyError
         | Some s \<Rightarrow> (case flt s of None \<Rightarrow> Inl ValueError | Some x \<Rightarrow> Inr (Some x)))"
    and "best_ask_size flt book =
        (case e ''size'' of
           None \<Rightarrow> Inl KeyError
         | Some s \<Rightarrow> (case flt s of None \<Rightarrow> Inl ValueError | Some x \<Rightarrow> Inr (Some x)))"
    by (simp_all add: best_ask_def best_ask_size_def first_item)
next
  assume wf: "wf_book flt book"
  from wf_book_bids [OF wf] wf_book_asks [OF wf]
  show "\<exists>p ps q qs. best_bid flt book = Inr p \<and> best_bid_size flt book = Inr ps \<and>
         best_ask flt book = Inr q \<and> best_ask_size flt book = Inr qs"
    by blast
qed

theorem accessors_absent_iff_empty_witness:
  "best_bid decimal_float (mk_book [lvl ''0.45'' ''100'', lvl ''0.44'' ''50''] [] ''token_123'')
     = Inr (Some (45 / 100)) \<and>
   best_bid_size decimal_float (mk_book [lvl ''0.45'' ''100'', lvl ''0.44'' ''50''] [] ''token_123'')
     = Inr (Some 100) \<and>
   best_ask decimal_float (mk_book [lvl ''0.45'' ''100'', lvl ''0.44'' ''50''] [] ''token_123'')
     = Inr None \<and>
   best_ask_size decimal_float (mk_book [lvl ''0.45'' ''100'', lvl ''0.44'' ''50''] [] ''token_123'')
     = Inr None \<and>
   wf_book decimal_float (mk_book [lvl ''0.45'' ''100'', lvl ''0.44'' ''50''] [] ''token_123'')"
proof -
  let ?b = "mk_book [lvl ''0.45'' ''100'', lvl ''0.44'' ''50''] [] ''token_123''"
  note t = accessors_absent_iff_empty [of decimal_float ?b]
  have b: "bids ?b = lvl ''0.45'' ''100'' # [lvl ''0.44'' ''50'']" and a: "asks ?b = []"
    by (simp_all add: mk_book_def)
  from t a have "best_ask decimal_float ?b = Inr None" "best_ask_size decimal_float ?b = Inr None"
    by blast+
  moreover from t b have
    "best_bid decimal_float ?b =
        (case lvl ''0.45'' ''100'' ''price'' of
           None \<Rightarrow> Inl KeyError
         | Some s \<Rightarrow> (case decimal_float s of None \<Rightarrow> Inl ValueError | Some x \<Rightarrow> Inr (Some x)))"
    "best_bid_size decimal_float ?b =
        (case lvl ''0.45'' ''100'' ''size'' of
           None \<Rightarrow> Inl KeyError
         | Some s \<Rightarrow> (case decimal_float s of None \<Rightarrow> Inl ValueError | Some x \<Rightarrow> Inr (Some x)))"
    by blast+
  then have "best_bid decimal_float ?b = Inr (Some (45 / 100))"
    "best_bid_size decimal_float ?b = Inr (Some 100)"
    by (simp_all add: lvl_def decimal_float_def unsigned_decimal_def digit_def)
  moreover have "wf_book decimal_float ?b" by (simp add: eval_simps)
  ultimately show ?thesis by (intro conjI)
qed

text \<open>The accessors do raise: a book whose best bid has an unparsable size is built
  without error, and \<^verbatim>\<open>best_bid_size\<close> raises \<^verbatim>\<open>ValueError\<close> on it; a best bid without
  a price sorts as \<open>0\<close> at construction, and \<^verbatim>\<open>best_bid\<close> raises \<^verbatim>\<open>KeyError\<close> on it.\<close>

theorem accessors_never_throw_counterexample:
  "post_init decimal_float [lvl ''0.5'' ''abc''] [] ''t'' = Inr (mk_book [lvl ''0.5'' ''abc''] [] ''t'') \<and>
   best_bid_size decimal_float (mk_book [lvl ''0.5'' ''abc''] [] ''t'') = Inl ValueError \<and>
   post_init decimal_float [[''size'' \<mapsto> ''10'']] [] ''t'' = Inr (mk_book [[''size'' \<mapsto> ''10'']] [] ''t'') \<and>
   best_bid decimal_float (mk_book [[''size'' \<mapsto> ''10'']] [] ''t'') = Inl KeyError"
  by (simp add: post_init_def sorted_by_price_def py_sorted_def price_key_def eval_simps)














subsection \<open>The batched fetch\<close>

lemma fetch_orderbook_returns: "\<exists>ob. fetch_orderbook flt response tid = Inr ob"
proof (cases "rbind response (\<lambda>data. from_api_response flt data tid)")
  case (Inl e)
  then show ?thesis by (cases e) (simp_all add: fetch_orderbook_def)
next
  case (Inr book)
  then show ?thesis by (simp add: fetch_orderbook_def)
qed

lemma gather_returns:
  "\<exists>results. gather flt cl i token_ids = Inr results \<and> map fst results = token_ids \<and>
     (\<forall>j<length token_ids.
        fetch_orderbook flt (cl (i + j) (token_ids ! j)) (token_ids ! j) = Inr (snd (results ! j)))"
proof (induction token_ids arbitrary: i)
  case Nil
  then show ?case by simp
next
  case (Cons tid tids)
  from fetch_orderbook_returns obtain ob where
    ob: "fetch_orderbook flt (cl i tid) tid = Inr ob" by blast
  from Cons.IH [of "Suc i"] obtain rest where
    rest: "gather flt cl (Suc i) tids = Inr rest" "map fst rest = tids"
      "\<forall>j<length tids.
        fetch_orderbook flt (cl (Suc i + j) (tids ! j)) (tids ! j) = Inr (snd (rest ! j))"
    by blast
  let ?rs = "(tid, ob) # rest"
  have "gather flt cl i (tid # tids) = Inr ?rs" "map fst ?rs = tid # tids"
    using ob rest by simp_all
  moreover have "\<forall>j<length (tid # tids).
        fetch_orderbook flt (cl (i + j) ((tid # tids) ! j)) ((tid # tids) ! j)
          = Inr (snd (?rs ! j))"
  proof (intro allI impI)
    fix j assume "j < length (tid # tids)"
    then show "fetch_orderbook flt (cl (i + j) ((tid # tids) ! j)) ((tid # tids) ! j)
          = Inr (snd (?rs ! j))"
      using ob rest(3) by (cases j) simp_all
  qed
  ultimately show ?case
    by - (rule exI [where x = ?rs], (intro conjI; assumption))
qed

lemma successes_keys: "set (map fst (successes rs)) \<subseteq> set (map fst rs)"
  by (induction rs rule: successes.induct) (auto split: option.splits)




lemma py_dict_distinct: "distinct (map fst d) \<Longrightarrow> distinct (map fst (py_dict ps d))"
  by (induction ps d rule: py_dict.induct) (simp_all add: distinct_update)

lemma py_dict_keys: "set (map fst (py_dict ps d)) = set (map fst d) \<union> set (map fst ps)"
  by (induction ps d rule: py_dict.induct) (auto simp: dom_update)

lemma py_dict_lookup: "map_of (py_dict ps d) = map_of d ++ map_of (rev ps)"
proof (induction ps d rule: py_dict.induct)
  case (1 d)
  then show ?case by simp
next
  case (2 k v rest d)
  have "map_of (py_dict ((k, v) # rest) d) = map_of (AList.update k v d) ++ map_of (rev rest)"
    using 2 by simp
  also have "\<dots> = (map_of d ++ [k \<mapsto> v]) ++ map_of (rev rest)"
    by (simp add: update_conv')
  also have "\<dots> = map_of d ++ map_of (rev ((k, v) # rest))"
    by (simp add: map_of_append)
  finally show ?case .
qed

lemma py_dict_length:
  "length (py_dict ps []) \<le> length ps"
  "length (py_dict ps []) < length ps \<longleftrightarrow> \<not> distinct (map fst ps)"
proof -
  have d: "distinct (map fst (py_dict ps []))" by (rule py_dict_distinct) simp
  then have "length (py_dict ps []) = card (set (map fst (py_dict ps [])))"
    by (metis distinct_card length_map)
  moreover have "set (map fst (py_dict ps [])) = set (map fst ps)"
    using py_dict_keys [of ps "[]"] by simp
  ultimately have l: "length (py_dict ps []) = card (set (map fst ps))"
    by (simp only:)
  have c: "card (set (map fst ps)) \<le> length (map fst ps)" by (rule card_length)
  with l show "length (py_dict ps []) \<le> length ps" by simp
  have "card (set (map fst ps)) = length (map fst ps) \<longleftrightarrow> distinct (map fst ps)"
    by (metis card_distinct distinct_card)
  with l c show "length (py_dict ps []) < length ps \<longleftrightarrow> \<not> distinct (map fst ps)"
    by auto
qed


lemma batch_returns:
  "\<exists>results. gather flt cl 0 token_ids = Inr results \<and> map fst results = token_ids \<and>
     (\<forall>j<length token_ids.
        fetch_orderbook flt (cl j (token_ids ! j)) (token_ids ! j) = Inr (snd (results ! j))) \<and>
     fetch_orderbooks_batch flt cl token_ids = Inr (py_dict (successes results) [])"
proof -
  from gather_returns [of flt cl 0 token_ids] obtain results where
    r: "gather flt cl 0 token_ids = Inr results" "map fst results = token_ids"
      "\<forall>j<length token_ids.
        fetch_orderbook flt (cl (0 + j) (token_ids ! j)) (token_ids ! j) = Inr (snd (results ! j))"
    by blast
  from r(3) have "\<forall>j<length token_ids.
        fetch_orderbook flt (cl j (token_ids ! j)) (token_ids ! j) = Inr (snd (results ! j))"
    by simp
  moreover from r(1) have
    "fetch_orderbooks_batch flt cl token_ids = Inr (py_dict (successes results) [])"
    by (simp add: fetch_orderbooks_batch_def)
  ultimately show ?thesis using r(1,2)
    by - (rule exI [where x = results], (intro conjI; assumption))
qed




lemma flaky_gather:
  "gather decimal_float flaky_client 0 [''a'', ''b'', ''c''] =
     Inr [(''a'', Some (mk_book [lvl ''0.5'' ''10''] [] ''a'')), (''b'', None),
          (''c'', Some (mk_book [lvl ''0.6'' ''10''] [] ''c''))]"
  "gather decimal_float flaky_client 0 [''a'', ''b'', ''a''] =
     Inr [(''a'', Some (mk_book [lvl ''0.5'' ''10''] [] ''a'')), (''b'', None),
          (''a'', Some (mk_book [lvl ''0.6'' ''10''] [] ''a''))]"
  by (simp_all add: fetch_orderbook_def from_api_response_def post_init_def sorted_by_price_def
      py_sorted_def price_key_def flaky_client_def mk_book_def lvl_def decimal_float_def
      unsigned_decimal_def digit_def)


text \<open>
  Claim C10 (keys of the fetched mapping). The mapping returned by
  \<^verbatim>\<open>fetch_orderbooks_batch\<close> has pairwise distinct keys, each of them one of the input
  identifiers. Looking a key up gives the book of its last successful retrieval, so
  an identifier that occurs several times contributes at most one entry. The mapping
  has at most as many entries as there were successful retrievals, and strictly fewer
  exactly when some identifier was retrieved successfully more than once.
\<close>

theorem fetch_batch_keys:
  "\<exists>results d.
     gather flt cl 0 token_ids = Inr results \<and>
     fetch_orderbooks_batch flt cl token_ids = Inr d \<and>
     distinct (map fst d) \<and> set (map fst d) \<subseteq> set token_ids \<and>
     map_of d = map_of (rev (successes results)) \<and>
     length d \<le> length (successes results) \<and>
     (length d < length (successes results) \<longleftrightarrow> \<not> distinct (map fst (successes results)))"
proof -
  from batch_returns [of flt cl token_ids] obtain results where
    r: "gather flt cl 0 token_ids = Inr results" "map fst results = token_ids"
      "fetch_orderbooks_batch flt cl token_ids = Inr (py_dict (successes results) [])"
    by blast
  let ?d = "py_dict (successes results) []"
  have 1: "distinct (map fst ?d)" by (rule py_dict_distinct) simp
  have 2: "set (map fst ?d) \<subseteq> set token_ids"
    using py_dict_keys [of "successes results" "[]"] successes_keys [of results] r(2) by simp
  have 3: "map_of ?d = map_of (rev (successes results))"
    by (simp add: py_dict_lookup)
  note 4 = py_dict_length [of "successes results"]
  from r(1,3) 1 2 3 4 show ?thesis
    by - (rule exI [where x = results], rule exI [where x = ?d], (intro conjI; assumption))
qed

theorem fetch_batch_keys_witness:
  "\<exists>d. fetch_orderbooks_batch decimal_float flaky_client [''a'', ''b'', ''a''] = Inr d \<and>
     distinct (map fst d) \<and> set (map fst d) \<subseteq> {''a'', ''b''} \<and>
     map_of d ''a'' = Some (mk_book [lvl ''0.6'' ''10''] [] ''a'') \<and> map_of d ''b'' = None \<and>
     length d < 2"
proof -
  from fetch_batch_keys [of decimal_float flaky_client "[''a'', ''b'', ''a'']"]
  obtain results d where
    r: "gather decimal_float flaky_client 0 [''a'', ''b'', ''a''] = Inr results"
    and d: "fetch_orderbooks_batch decimal_float flaky_client [''a'', ''b'', ''a''] = Inr d"
      "distinct (map fst d)" "set (map fst d) \<subseteq> set [''a'', ''b'', ''a'']"
    and m: "map_of d = map_of (rev (successes results))"
    and l: "length d < length (successes results) \<longleftrightarrow> \<not> distinct (map fst (successes results))"
    by blast
  from r flaky_gather(2) have
    res: "results = [(''a'', Some (mk_book [lvl ''0.5'' ''10''] [] ''a'')), (''b'', None),
          (''a'', Some (mk_book [lvl ''0.6'' ''10''] [] ''a''))]"
    by simp
  from l have "length d < 2" unfolding res by simp
  moreover from m have "map_of d ''a'' = Some (mk_book [lvl ''0.6'' ''10''] [] ''a'')"
    "map_of d ''b'' = None"
    unfolding res by simp_all
  moreover from d(3) have "set (map fst d) \<subseteq> {''a'', ''b''}" by auto
  ultimately show ?thesis using d(1,2) by blast
qed

subsection \<open>The scan\<close>

lemma scan_loop_concat:
  "scan_loop flt thr orderbooks markets = Inr acc \<Longrightarrow>
     \<exists>found. list_all2 (\<lambda>m f. scan_market flt thr orderbooks m = Inr f) markets found \<and>
       acc = concat found"
proof (induction markets arbitrary: acc)
  case Nil
  then show ?case by simp
next
  case (Cons m ms)
  from Cons.prems obtain f rest where
    f: "scan_market flt thr orderbooks m = Inr f"
    and rest: "scan_loop flt thr orderbooks ms = Inr rest"
    and acc: "acc = f @ rest"
    by (auto simp: rbind_eq_Inr)
  from Cons.IH [OF rest] obtain found where
    found: "list_all2 (\<lambda>m f. scan_market flt thr orderbooks m = Inr f) ms found"
      "rest = concat found"
    by blast
  from f found acc have
    "list_all2 (\<lambda>m f. scan_market flt thr orderbooks m = Inr f) (m # ms) (f # found)"
    "acc = concat (f # found)"
    by simp_all
  then show ?case by blast
qed

lemma py_sorted_descending: "sorted (rev (map key (py_sorted key True xs)))"
  by (simp add: py_sorted_def rev_map [symmetric])

lemma py_sorted_stable:
  "filter (\<lambda>x. key x = k) (py_sorted key r xs) = filter (\<lambda>x. key x = k) xs"
proof (cases r)
  case True
  have "filter (\<lambda>x. key x = k) (rev (sort_key key (rev xs)))
      = rev (filter (\<lambda>x. key x = k) (sort_key key (rev xs)))"
    by (simp add: rev_filter)
  also have "\<dots> = rev (filter (\<lambda>x. key x = k) (rev xs))"
    by (simp only: sort_key_stable)
  also have "\<dots> = filter (\<lambda>x. key x = k) xs"
    by (simp add: rev_filter)
  finally show ?thesis using True by (simp add: py_sorted_def)
next
  case False
  then show ?thesis by (simp add: py_sorted_def sort_key_stable)
qed

text \<open>
  Claim C6 (ranking of scan results). Whenever \<^verbatim>\<open>scan_markets\<close> returns, the list it
  returns is sorted by profit fraction in descending order, and it is a stable
  rearrangement of the opportunities in the order of discovery: for every profit
  value, the opportunities with that profit appear in the same order as in the
  concatenation, in market input order, of what the check of each market returned
  (which lists the buy-side opportunity before the sell-side one).
\<close>

theorem scan_markets_ranked:
  assumes "scan_markets flt thr cl markets = Inr result"
  shows "\<exists>ids orderbooks found.
     all_token_ids markets = Inr ids \<and> fetch_orderbooks_batch flt cl ids = Inr orderbooks \<and>
     list_all2 (\<lambda>m f. scan_market flt thr orderbooks m = Inr f) markets found \<and>
     sorted (rev (map profit_pct result)) \<and>
     mset result = mset (concat found) \<and>
     (\<forall>k. filter (\<lambda>x. profit_pct x = k) result = filter (\<lambda>x. profit_pct x = k) (concat found))"
proof -
  from assms obtain ids orderbooks acc where
    i: "all_token_ids markets = Inr ids"
    and b: "fetch_orderbooks_batch flt cl ids = Inr orderbooks"
    and l: "scan_loop flt thr orderbooks markets = Inr acc"
    and r: "result = py_sorted profit_pct True acc"
    by (auto simp: scan_markets_def rbind_eq_Inr)
  from scan_loop_concat [OF l] obtain found where
    f: "list_all2 (\<lambda>m f. scan_market flt thr orderbooks m = Inr f) markets found"
    and a: "acc = concat found"
    by blast
  have 1: "sorted (rev (map profit_pct result))"
    unfolding r by (rule py_sorted_descending)
  have 2: "mset result = mset (concat found)"
    unfolding r a by (simp add: py_sorted_def)
  have 3: "\<forall>k. filter (\<lambda>x. profit_pct x = k) result
      = filter (\<lambda>x. profit_pct x = k) (concat found)"
    unfolding r a by (simp add: py_sorted_stable)
  from i b f 1 2 3 show ?thesis
    by - (rule exI [where x = ids], rule exI [where x = orderbooks],
        rule exI [where x = found], (intro conjI; assumption))
qed


lemma scan_input_ids:
  "all_token_ids scan_input = Inr [''y1'', ''n1'', ''y2'', ''n2'', ''y3'', ''n3'']"
  by (simp add: scan_input_def binary_market_def tok_def item_def)

lemma scan_input_books:
  "fetch_orderbooks_batch decimal_float scan_client [''y1'', ''n1'', ''y2'', ''n2'', ''y3'', ''n3'']
     = Inr [(''y1'', mk_book [] [lvl ''0.45'' ''100''] ''y1''),
            (''n1'', mk_book [] [lvl ''0.50'' ''100''] ''n1''),
            (''y2'', mk_book [] [lvl ''0.40'' ''100''] ''y2''),
            (''n2'', mk_book [] [lvl ''0.50'' ''100''] ''n2''),
            (''y3'', mk_book [] [lvl ''0.45'' ''100''] ''y3''),
            (''n3'', mk_book [] [lvl ''0.50'' ''100''] ''n3'')]"
  by (simp add: fetch_orderbooks_batch_def fetch_orderbook_def from_api_response_def
      post_init_def sorted_by_price_def py_sorted_def price_key_def scan_client_def mk_book_def
      lvl_def decimal_float_def unsigned_decimal_def digit_def)

lemma scan_input_found:
  "scan_market decimal_float (1 / 1000)
     [(''y1'', mk_book [] [lvl ''0.45'' ''100''] ''y1''),
      (''n1'', mk_book [] [lvl ''0.50'' ''100''] ''n1''),
      (''y2'', mk_book [] [lvl ''0.40'' ''100''] ''y2''),
      (''n2'', mk_book [] [lvl ''0.50'' ''100''] ''n2''),
      (''y3'', mk_book [] [lvl ''0.45'' ''100''] ''y3''),
      (''n3'', mk_book [] [lvl ''0.50'' ''100''] ''n3'')] (binary_market ''first'' ''y1'' ''n1'')
     = Inr [buy_opp ''first'' (45 / 100) (1 / 2)]"
  "scan_market decimal_float (1 / 1000)
     [(''y1'', mk_book [] [lvl ''0.45'' ''100''] ''y1''),
      (''n1'', mk_book [] [lvl ''0.50'' ''100''] ''n1''),
      (''y2'', mk_book [] [lvl ''0.40'' ''100''] ''y2''),
      (''n2'', mk_book [] [lvl ''0.50'' ''100''] ''n2''),
      (''y3'', mk_book [] [lvl ''0.45'' ''100''] ''y3''),
      (''n3'', mk_book [] [lvl ''0.50'' ''100''] ''n3'')] (binary_market ''second'' ''y2'' ''n2'')
     = Inr [buy_opp ''second'' (4 / 10) (1 / 2)]"
  "scan_market decimal_float (1 / 1000)
     [(''y1'', mk_book [] [lvl ''0.45'' ''100''] ''y1''),
      (''n1'', mk_book [] [lvl ''0.50'' ''100''] ''n1''),
      (''y2'', mk_book [] [lvl ''0.40'' ''100''] ''y2''),
      (''n2'', mk_book [] [lvl ''0.50'' ''100''] ''n2''),
      (''y3'', mk_book [] [lvl ''0.45'' ''100''] ''y3''),
      (''n3'', mk_book [] [lvl ''0.50'' ''100''] ''n3'')] (binary_market ''third'' ''y3'' ''n3'')
     = Inr [buy_opp ''third'' (45 / 100) (1 / 2)]"
  by (simp_all add: scan_market_def binary_market_def tok_def item_def
      check_binary_arbitrage_def binary_buy_def binary_sell_def min2_def buy_opp_def eval_simps)

lemma scan_input_run:
  "scan_markets decimal_float (1 / 1000) scan_client scan_input =
     Inr [buy_opp ''second'' (4 / 10) (1 / 2), buy_opp ''first'' (45 / 100) (1 / 2),
          buy_opp ''third'' (45 / 100) (1 / 2)]"
proof -
  have "scan_loop decimal_float (1 / 1000)
     [(''y1'', mk_book [] [lvl ''0.45'' ''100''] ''y1''),
      (''n1'', mk_book [] [lvl ''0.50'' ''100''] ''n1''),
      (''y2'', mk_book [] [lvl ''0.40'' ''100''] ''y2''),
      (''n2'', mk_book [] [lvl ''0.50'' ''100''] ''n2''),
      (''y3'', mk_book [] [lvl ''0.45'' ''100''] ''y3''),
      (''n3'', mk_book [] [lvl ''0.50'' ''100''] ''n3'')] scan_input =
     Inr [buy_opp ''first'' (45 / 100) (1 / 2), buy_opp ''second'' (4 / 10) (1 / 2),
          buy_opp ''third'' (45 / 100) (1 / 2)]"
    by (simp add: scan_input_def scan_input_found)
  then show ?thesis
    by (simp add: scan_markets_def scan_input_ids scan_input_books py_sorted_def buy_opp_def)
qed

theorem scan_markets_ranked_witness:
  "scan_markets decimal_float (1 / 1000) scan_client scan_input =
     Inr [buy_opp ''second'' (4 / 10) (1 / 2), buy_opp ''first'' (45 / 100) (1 / 2),
          buy_opp ''third'' (45 / 100) (1 / 2)] \<and>
   sorted (rev (map profit_pct
     [buy_opp ''second'' (4 / 10) (1 / 2), buy_opp ''first'' (45 / 100) (1 / 2),
      buy_opp ''third'' (45 / 100) (1 / 2)])) \<and>
   filter (\<lambda>x. profit_pct x = 1 / 20)
     [buy_opp ''second'' (4 / 10) (1 / 2), buy_opp ''first'' (45 / 100) (1 / 2),
      buy_opp ''third'' (45 / 100) (1 / 2)] =
   filter (\<lambda>x. profit_pct x = 1 / 20)
     (concat [[buy_opp ''first'' (45 / 100) (1 / 2)], [buy_opp ''second'' (4 / 10) (1 / 2)],
       [buy_opp ''third'' (45 / 100) (1 / 2)]])"
proof -
  let ?result = "[buy_opp ''second'' (4 / 10) (1 / 2), buy_opp ''first'' (45 / 100) (1 / 2),
     buy_opp ''third'' (45 / 100) (1 / 2)]"
  from scan_markets_ranked [OF scan_input_run] obtain ids orderbooks found where
    i: "all_token_ids scan_input = Inr ids"
    and b: "fetch_orderbooks_batch decimal_float scan_client ids = Inr orderbooks"
    and f: "list_all2 (\<lambda>m f. scan_market decimal_float (1 / 1000) orderbooks m = Inr f)
        scan_input found"
    and s: "sorted (rev (map profit_pct ?result))"
    and st: "\<forall>k. filter (\<lambda>x. profit_pct x = k) ?result
        = filter (\<lambda>x. profit_pct x = k) (concat found)"
    by blast
  from i scan_input_ids have ids: "ids = [''y1'', ''n1'', ''y2'', ''n2'', ''y3'', ''n3'']"
    by simp
  from b scan_input_books have obs: "orderbooks = [(''y1'', mk_book [] [lvl ''0.45'' ''100''] ''y1''),
      (''n1'', mk_book [] [lvl ''0.50'' ''100''] ''n1''),
      (''y2'', mk_book [] [lvl ''0.40'' ''100''] ''y2''),
      (''n2'', mk_book [] [lvl ''0.50'' ''100''] ''n2''),
      (''y3'', mk_book [] [lvl ''0.45'' ''100''] ''y3''),
      (''n3'', mk_book [] [lvl ''0.50'' ''100''] ''n3'')]"
    unfolding ids by simp
  from f have found: "found = [[buy_opp ''first'' (45 / 100) (1 / 2)],
      [buy_opp ''second'' (4 / 10) (1 / 2)], [buy_opp ''third'' (45 / 100) (1 / 2)]]"
    unfolding obs scan_input_def by (auto simp: list_all2_Cons1 scan_input_found)
  from st have "filter (\<lambda>x. profit_pct x = 1 / 20) ?result
        = filter (\<lambda>x. profit_pct x = 1 / 20) (concat found)"
    by (rule spec)
  with scan_input_run s show ?thesis unfolding found by (intro conjI)
qed

end
